theory Spec2Isabelle
  imports Main
begin

section \<open>The binding header \<open>rigz.h\<close> of tree-sitter-rigz\<close>

text \<open>
  The Swift binding of the grammar crate consists of one C header,
  \<^verbatim>\<open>crates/tree-sitter-rigz/bindings/swift/TreeSitterRigz/rigz.h\<close>. It is sixteen
  lines long: an include guard, the forward declaration of the grammar-table type, and
  the prototype of the accessor, wrapped in a C linkage block when compiled as C++.

  The header is embedded line by line. A line is a preprocessing directive, a
  declaration, one of the two braces of the linkage block, or blank. Declarations are
  kept as syntax trees, and \<open>show_line\<close> prints every line back in C syntax, so that
  the embedding can be compared with the file character by character.
\<close>

subsection \<open>C types and declarations\<close>

type_synonym ident = string

datatype ctype =
    Void
  | Named ident
  | Struct ident
  | Const ctype
  | Pointer ctype

text \<open>
  The declarations a header can make at file scope: a typedef, the definition of a
  struct with its members, an object, and a function prototype (return type, name,
  parameter types; the parameter list \<^verbatim>\<open>(void)\<close> is the empty list).
\<close>

datatype decl =
    Typedef ctype ident
  | Struct_def ident "(ctype \<times> ident) list"
  | Object ctype ident
  | Prototype ctype ident "ctype list"

subsection \<open>Lines of a header\<close>

datatype line =
    Ifndef ident
  | Ifdef ident
  | Define ident
  | Endif
  | Extern_C_open
  | Extern_C_close
  | Declaration decl
  | Blank
  | Commented line string

text \<open>The file, one entry per line of the source.\<close>

definition rigz_h :: "line list" where
  "rigz_h =
    [Ifndef ''TREE_SITTER_RIGZ_H_'',
     Define ''TREE_SITTER_RIGZ_H_'',
     Blank,
     Declaration (Typedef (Struct ''TSLanguage'') ''TSLanguage''),
     Blank,
     Ifdef ''__cplusplus'',
     Extern_C_open,
     Endif,
     Blank,
     Declaration (Prototype (Pointer (Const (Named ''TSLanguage''))) ''tree_sitter_rigz'' []),
     Blank,
     Ifdef ''__cplusplus'',
     Extern_C_close,
     Endif,
     Blank,
     Commented Endif ''TREE_SITTER_RIGZ_H_'']"

subsection \<open>Concrete syntax\<close>

fun show_type :: "ctype \<Rightarrow> string" where
  "show_type Void = ''void''"
| "show_type (Named n) = n"
| "show_type (Struct n) = ''struct '' @ n"
| "show_type (Const (Pointer t)) = show_type (Pointer t) @ ''const''"
| "show_type (Const t) = ''const '' @ show_type t"
| "show_type (Pointer t) = show_type t @ '' *''"

text \<open>A declarator: the type, then the name, with no blank after a \<^verbatim>\<open>*\<close>.\<close>

definition show_declarator :: "ctype \<Rightarrow> ident \<Rightarrow> string" where
  "show_declarator t n =
     (case t of Pointer _ \<Rightarrow> show_type t @ n | _ \<Rightarrow> show_type t @ '' '' @ n)"

fun show_params :: "ctype list \<Rightarrow> string" where
  "show_params [] = ''void''"
| "show_params [t] = show_type t"
| "show_params (t # ts) = show_type t @ '', '' @ show_params ts"

fun show_members :: "(ctype \<times> ident) list \<Rightarrow> string" where
  "show_members [] = []"
| "show_members ((t, n) # ms) = '' '' @ show_declarator t n @ '';'' @ show_members ms"

fun show_decl :: "decl \<Rightarrow> string" where
  "show_decl (Typedef t n) = ''typedef '' @ show_declarator t n @ '';''"
| "show_decl (Struct_def n ms) = ''struct '' @ n @ '' {'' @ show_members ms @ '' };''"
| "show_decl (Object t n) = show_declarator t n @ '';''"
| "show_decl (Prototype t n ps) = show_declarator t n @ ''('' @ show_params ps @ '');''"

fun show_line :: "line \<Rightarrow> string" where
  "show_line (Ifndef m) = ''#ifndef '' @ m"
| "show_line (Ifdef m) = ''#ifdef '' @ m"
| "show_line (Define m) = ''#define '' @ m"
| "show_line Endif = ''#endif''"
| "show_line Extern_C_open = ''extern '' @ [CHR 0x22] @ ''C'' @ [CHR 0x22] @ '' {''"
| "show_line Extern_C_close = ''}''"
| "show_line (Declaration d) = show_decl d"
| "show_line Blank = []"
| "show_line (Commented l c) = show_line l @ '' // '' @ c"

subsection \<open>The preprocessor: conditional inclusion\<close>

text \<open>
  The part of the C preprocessor the header exercises: \<^verbatim>\<open>#ifndef\<close>, \<^verbatim>\<open>#ifdef\<close>,
  \<^verbatim>\<open>#define\<close> of a macro with an empty body, and \<^verbatim>\<open>#endif\<close>. The state is the set
  of defined macros and the stack of open conditionals, innermost first; an entry tells
  whether the lines of that group are processed. A group inside a skipped group is
  skipped, whatever its condition. Comments are removed before directives are read.

  A line that is not a directive is subject to macro replacement when its group is
  processed: every identifier on it that names a defined macro is replaced, keywords
  included. The state records which macros are defined, not their bodies, so the model
  cannot carry a replacement out. It passes such a line through only when none of its
  identifiers names a defined macro, and otherwise stops with \<open>Replacement_not_modelled\<close>;
  that result is the limit of the model, not a diagnostic of the preprocessor. The name
  after \<^verbatim>\<open>#ifndef\<close>, \<^verbatim>\<open>#ifdef\<close> and \<^verbatim>\<open>#define\<close> is never replaced, and neither is
  the string literal of the linkage block.
\<close>

record cpp_state =
  macros :: "ident set"
  conds :: "bool list"

datatype cpp_error = Endif_without_if | Unterminated_conditional | Replacement_not_modelled

definition active :: "cpp_state \<Rightarrow> bool" where
  "active s = (case conds s of [] \<Rightarrow> True | b # _ \<Rightarrow> b)"

text \<open>The identifiers on a line of text, keywords included, in any order.\<close>

fun type_idents :: "ctype \<Rightarrow> ident list" where
  "type_idents Void = [''void'']"
| "type_idents (Named n) = [n]"
| "type_idents (Struct n) = [''struct'', n]"
| "type_idents (Const t) = ''const'' # type_idents t"
| "type_idents (Pointer t) = type_idents t"

fun member_idents :: "(ctype \<times> ident) list \<Rightarrow> ident list" where
  "member_idents [] = []"
| "member_idents ((t, n) # ms) = type_idents t @ n # member_idents ms"

fun param_idents :: "ctype list \<Rightarrow> ident list" where
  "param_idents [] = [''void'']"
| "param_idents [t] = type_idents t"
| "param_idents (t # ts) = type_idents t @ param_idents ts"

fun decl_idents :: "decl \<Rightarrow> ident list" where
  "decl_idents (Typedef t n) = ''typedef'' # type_idents t @ [n]"
| "decl_idents (Struct_def n ms) = ''struct'' # n # member_idents ms"
| "decl_idents (Object t n) = type_idents t @ [n]"
| "decl_idents (Prototype t n ps) = type_idents t @ n # param_idents ps"

fun line_idents :: "line \<Rightarrow> ident list" where
  "line_idents (Declaration d) = decl_idents d"
| "line_idents Extern_C_open = [''extern'']"
| "line_idents (Commented l c) = line_idents l"
| "line_idents _ = []"

definition needs_replacement :: "ident set \<Rightarrow> line \<Rightarrow> bool" where
  "needs_replacement M l = list_ex (\<lambda>m. m \<in> M) (line_idents l)"

fun cpp_line :: "line \<Rightarrow> cpp_state \<Rightarrow> cpp_error + line list \<times> cpp_state" where
  "cpp_line (Ifndef m) s = Inr ([], s\<lparr>conds := (active s \<and> m \<notin> macros s) # conds s\<rparr>)"
| "cpp_line (Ifdef m) s = Inr ([], s\<lparr>conds := (active s \<and> m \<in> macros s) # conds s\<rparr>)"
| "cpp_line (Define m) s =
     Inr ([], if active s then s\<lparr>macros := insert m (macros s)\<rparr> else s)"
| "cpp_line Endif s =
     (case conds s of
        [] \<Rightarrow> Inl Endif_without_if
      | _ # cs \<Rightarrow> Inr ([], s\<lparr>conds := cs\<rparr>))"
| "cpp_line Blank s = Inr ([], s)"
| "cpp_line (Commented l c) s = cpp_line l s"
| "cpp_line l s =
     (if active s then
        if needs_replacement (macros s) l then Inl Replacement_not_modelled
        else Inr ([l], s)
      else Inr ([], s))"

fun cpp_lines :: "line list \<Rightarrow> cpp_state \<Rightarrow> cpp_error + line list \<times> cpp_state" where
  "cpp_lines [] s = Inr ([], s)"
| "cpp_lines (l # ls) s =
     (case cpp_line l s of
        Inl e \<Rightarrow> Inl e
      | Inr (out, s') \<Rightarrow>
          (case cpp_lines ls s' of
             Inl e \<Rightarrow> Inl e
           | Inr (out', s'') \<Rightarrow> Inr (out @ out', s'')))"

text \<open>
  \<^verbatim>\<open>#include\<close> of a file. In a skipped group the directive is not carried out.
  Otherwise the file's lines are processed with the macros defined so far. The
  conditionals a file opens must be closed in that file, and a file cannot close a
  conditional it did not open, so the file is processed on a stack of its own, and the
  stack of the including file is restored after it.
\<close>

definition include_file :: "line list \<Rightarrow> cpp_state \<Rightarrow> cpp_error + line list \<times> cpp_state" where
  "include_file f s =
     (if active s then
        (case cpp_lines f (s\<lparr>conds := []\<rparr>) of
           Inl e \<Rightarrow> Inl e
         | Inr (out, s') \<Rightarrow>
             if conds s' = [] then Inr (out, s'\<lparr>conds := conds s\<rparr>)
             else Inl Unterminated_conditional)
      else Inr ([], s))"

text \<open>A translation unit that includes the same file \<open>n\<close> times in a row.\<close>

fun include_times :: "nat \<Rightarrow> line list \<Rightarrow> cpp_state \<Rightarrow> cpp_error + line list \<times> cpp_state" where
  "include_times 0 f s = Inr ([], s)"
| "include_times (Suc n) f s =
     (case include_file f s of
        Inl e \<Rightarrow> Inl e
      | Inr (out, s') \<Rightarrow>
          (case include_times n f s' of
             Inl e \<Rightarrow> Inl e
           | Inr (out', s'') \<Rightarrow> Inr (out @ out', s'')))"

text \<open>The start of a translation unit, with the macros the compiler predefines.\<close>

definition start :: "ident set \<Rightarrow> cpp_state" where
  "start predefined = \<lparr>macros = predefined, conds = []\<rparr>"

subsection \<open>What a preprocessed text declares\<close>

fun declarations :: "line list \<Rightarrow> decl list" where
  "declarations [] = []"
| "declarations (Declaration d # ls) = d # declarations ls"
| "declarations (_ # ls) = declarations ls"

fun prototypes :: "decl list \<Rightarrow> decl list" where
  "prototypes [] = []"
| "prototypes (Prototype t n ps # ds) = Prototype t n ps # prototypes ds"
| "prototypes (_ # ds) = prototypes ds"

fun objects :: "decl list \<Rightarrow> decl list" where
  "objects [] = []"
| "objects (Object t n # ds) = Object t n # objects ds"
| "objects (_ # ds) = objects ds"

fun completes :: "ident \<Rightarrow> decl \<Rightarrow> bool" where
  "completes T (Struct_def n ms) = (n = T)"
| "completes T _ = False"

text \<open>
  Write access at the type level. \<open>modifiable T t\<close>: an lvalue of type \<open>t\<close> is, or
  leads through pointers to, an object of type \<open>T\<close> that may be assigned to. A
  \<^verbatim>\<open>const\<close> qualifier forbids assignment to the object it qualifies; it does not
  protect what a qualified pointer points to. \<open>grants_write T t\<close>: a value of type
  \<open>t\<close> in the caller's hands is a pointer through which an object of type \<open>T\<close> can be
  modified.
\<close>

fun modifiable :: "ident \<Rightarrow> ctype \<Rightarrow> bool" where
  "modifiable T Void = False"
| "modifiable T (Named n) = (n = T)"
| "modifiable T (Struct n) = (n = T)"
| "modifiable T (Const (Pointer t)) = modifiable T t"
| "modifiable T (Const t) = False"
| "modifiable T (Pointer t) = modifiable T t"

fun grants_write :: "ident \<Rightarrow> ctype \<Rightarrow> bool" where
  "grants_write T (Pointer t) = modifiable T t"
| "grants_write T (Const t) = grants_write T t"
| "grants_write T _ = False"

text \<open>
  A declaration can mutate a \<open>T\<close> when it is a function that hands out or takes a
  pointer to a modifiable \<open>T\<close>, or an object that is or points to a modifiable \<open>T\<close>.
\<close>

fun can_mutate :: "ident \<Rightarrow> decl \<Rightarrow> bool" where
  "can_mutate T (Prototype t n ps) = (grants_write T t \<or> list_ex (grants_write T) ps)"
| "can_mutate T (Object t n) = modifiable T t"
| "can_mutate T _ = False"

text \<open>The name a declaration introduces.\<close>

fun declared_name :: "decl \<Rightarrow> ident" where
  "declared_name (Typedef t n) = n"
| "declared_name (Struct_def n ms) = n"
| "declared_name (Object t n) = n"
| "declared_name (Prototype t n ps) = n"

text \<open>The two declarations of the header.\<close>

definition TSLanguage_typedef :: decl where
  "TSLanguage_typedef = Typedef (Struct ''TSLanguage'') ''TSLanguage''"

definition tree_sitter_rigz :: decl where
  "tree_sitter_rigz = Prototype (Pointer (Const (Named ''TSLanguage''))) ''tree_sitter_rigz'' []"

text \<open>
  The text between the guard's \<^verbatim>\<open>#define\<close> and its \<^verbatim>\<open>#endif\<close>, as it leaves the
  preprocessor when the macros \<open>M\<close> are defined: the linkage braces are there for a C++
  compiler only.
\<close>

definition rigz_h_body :: "ident set \<Rightarrow> line list" where
  "rigz_h_body M =
     [Declaration TSLanguage_typedef]
     @ (if ''__cplusplus'' \<in> M then [Extern_C_open] else [])
     @ [Declaration tree_sitter_rigz]
     @ (if ''__cplusplus'' \<in> M then [Extern_C_close] else [])"

section \<open>Properties\<close>

subsection \<open>The embedding is the file\<close>

text \<open>Printed back, the embedded header is the source file, line for line.\<close>

lemma rigz_h_text:
  \<open>map show_line rigz_h =
    [''#ifndef TREE_SITTER_RIGZ_H_'',
     ''#define TREE_SITTER_RIGZ_H_'',
     '''',
     ''typedef struct TSLanguage TSLanguage;'',
     '''',
     ''#ifdef __cplusplus'',
     ''extern "C" {'',
     ''#endif'',
     '''',
     ''const TSLanguage *tree_sitter_rigz(void);'',
     '''',
     ''#ifdef __cplusplus'',
     ''}'',
     ''#endif'',
     '''',
     ''#endif // TREE_SITTER_RIGZ_H_'']\<close>
  by (simp add: rigz_h_def show_declarator_def)

text \<open>
  The identifiers of the header's text, the ones macro replacement could touch: four
  keywords, the type's tag and typedef name, and the accessor's name. The guard is not
  among them, so the header's own \<^verbatim>\<open>#define\<close> changes none of its lines.
\<close>

lemma rigz_h_idents:
  "set (concat (map line_idents rigz_h)) =
     {''typedef'', ''struct'', ''TSLanguage'', ''extern'', ''const'', ''tree_sitter_rigz'',
      ''void''}"
  by (auto simp: rigz_h_def)

lemma guard_not_in_text:
  "''TREE_SITTER_RIGZ_H_'' \<notin> set (concat (map line_idents rigz_h))"
  by (simp add: rigz_h_def)

subsection \<open>Preprocessing the header\<close>

text \<open>
  With the guard defined the whole header is one skipped group: nothing is replaced,
  nothing comes out and the state is unchanged, whatever else is defined.
\<close>

lemma cpp_rigz_h_skipped:
  assumes "''TREE_SITTER_RIGZ_H_'' \<in> M"
  shows "cpp_lines rigz_h \<lparr>macros = M, conds = []\<rparr> = Inr ([], \<lparr>macros = M, conds = []\<rparr>)"
  using assms by (simp add: rigz_h_def active_def)

text \<open>
  With the guard not defined, and no macro named like an identifier of the text, the
  header leaves its body and defines the guard; every conditional it opens it closes.
\<close>

lemma cpp_rigz_h_read:
  assumes "''TREE_SITTER_RIGZ_H_'' \<notin> M"
    and "M \<inter> {''typedef'', ''struct'', ''TSLanguage'', ''extern'', ''const'',
               ''tree_sitter_rigz'', ''void''} = {}"
  shows "cpp_lines rigz_h \<lparr>macros = M, conds = []\<rparr> =
           Inr (rigz_h_body M, \<lparr>macros = insert ''TREE_SITTER_RIGZ_H_'' M, conds = []\<rparr>)"
  using assms
  by (simp add: rigz_h_def rigz_h_body_def active_def needs_replacement_def
      TSLanguage_typedef_def tree_sitter_rigz_def)

text \<open>
  Where a macro is named like an identifier of the text, the model stops: with
  \<^verbatim>\<open>const\<close> defined as a macro the prototype's text would change.
\<close>

lemma cpp_rigz_h_const_macro:
  "include_file rigz_h (start {''const''}) = Inl Replacement_not_modelled"
  by (simp add: include_file_def rigz_h_def start_def active_def needs_replacement_def)

text \<open>So including the header has an effect only the first time.\<close>

lemma include_rigz_h_skipped:
  assumes "''TREE_SITTER_RIGZ_H_'' \<in> macros s \<or> \<not> active s"
  shows "include_file rigz_h s = Inr ([], s)"
proof (cases "active s")
  case False
  then show ?thesis by (simp add: include_file_def)
next
  case True
  with assms have g: "''TREE_SITTER_RIGZ_H_'' \<in> macros s"
    by simp
  have s: "s\<lparr>conds := []\<rparr> = \<lparr>macros = macros s, conds = []\<rparr>"
    by simp
  show ?thesis
    using True unfolding include_file_def s cpp_rigz_h_skipped [OF g]
    by simp
qed

lemma include_rigz_h_read:
  assumes "active s" and "''TREE_SITTER_RIGZ_H_'' \<notin> macros s"
    and "macros s \<inter> {''typedef'', ''struct'', ''TSLanguage'', ''extern'', ''const'',
                      ''tree_sitter_rigz'', ''void''} = {}"
  shows "include_file rigz_h s =
           Inr (rigz_h_body (macros s),
                s\<lparr>macros := insert ''TREE_SITTER_RIGZ_H_'' (macros s)\<rparr>)"
proof -
  have s: "s\<lparr>conds := []\<rparr> = \<lparr>macros = macros s, conds = []\<rparr>"
    by simp
  show ?thesis
    using assms(1) unfolding include_file_def s cpp_rigz_h_read [OF assms(2,3)]
    by simp
qed

lemma include_rigz_h:
  assumes "macros s \<inter> {''typedef'', ''struct'', ''TSLanguage'', ''extern'', ''const'',
                        ''tree_sitter_rigz'', ''void''} = {}"
  shows "include_file rigz_h s =
     Inr (if active s \<and> ''TREE_SITTER_RIGZ_H_'' \<notin> macros s
          then (rigz_h_body (macros s),
                s\<lparr>macros := insert ''TREE_SITTER_RIGZ_H_'' (macros s)\<rparr>)
          else ([], s))"
proof (cases "active s \<and> ''TREE_SITTER_RIGZ_H_'' \<notin> macros s")
  case True
  then show ?thesis
    using include_rigz_h_read [OF _ _ assms] by simp
next
  case False
  then show ?thesis
    using include_rigz_h_skipped [of s] by auto
qed

lemma include_rigz_h_again:
  assumes "''TREE_SITTER_RIGZ_H_'' \<in> macros s \<or> \<not> active s"
  shows "include_times n rigz_h s = Inr ([], s)"
  using assms by (induction n) (simp_all add: include_rigz_h_skipped)

lemma include_times_rigz_h:
  assumes "macros s \<inter> {''typedef'', ''struct'', ''TSLanguage'', ''extern'', ''const'',
                        ''tree_sitter_rigz'', ''void''} = {}"
  shows "include_times (Suc n) rigz_h s = include_file rigz_h s"
proof (cases "active s \<and> ''TREE_SITTER_RIGZ_H_'' \<notin> macros s")
  case True
  let ?s' = "s\<lparr>macros := insert ''TREE_SITTER_RIGZ_H_'' (macros s)\<rparr>"
  have "include_times n rigz_h ?s' = Inr ([], ?s')"
    by (rule include_rigz_h_again) simp
  with True show ?thesis
    by (simp add: include_rigz_h [OF assms])
next
  case False
  then have "include_times n rigz_h s = Inr ([], s)"
    by (intro include_rigz_h_again) auto
  with False show ?thesis
    by (auto simp: include_rigz_h [OF assms])
qed

lemma declarations_body:
  "declarations (rigz_h_body M) = [TSLanguage_typedef, tree_sitter_rigz]"
  by (simp add: rigz_h_body_def)

subsection \<open>Write access\<close>

text \<open>
  \<open>can_mutate\<close> tells the accessor's type from its writable variants: dropping the
  \<^verbatim>\<open>const\<close>, moving it to the pointer, or exposing the table as an object would
  each give write access.
\<close>

lemma can_mutate_discriminates:
  "can_mutate ''TSLanguage'' (Prototype (Pointer (Named ''TSLanguage'')) ''f'' [])"
  "can_mutate ''TSLanguage'' (Prototype Void ''g'' [Pointer (Struct ''TSLanguage'')])"
  "can_mutate ''TSLanguage'' (Prototype (Const (Pointer (Named ''TSLanguage''))) ''h'' [])"
  "can_mutate ''TSLanguage''
     (Prototype (Pointer (Const (Pointer (Named ''TSLanguage'')))) ''k'' [])"
  "can_mutate ''TSLanguage'' (Object (Named ''TSLanguage'') ''table'')"
  "\<not> can_mutate ''TSLanguage'' (Prototype (Pointer (Const (Struct ''TSLanguage''))) ''m'' [])"
  "\<not> can_mutate ''TSLanguage'' (Object (Const (Named ''TSLanguage'')) ''table'')"
  by simp_all

subsection \<open>The binding surface is read-only\<close>

text \<open>
  Claim C9. The public binding surface provides no operation that can mutate the grammar
  table. The header is read as it is written: the including translation unit defines no
  macro named like an identifier of the header's text (\<^verbatim>\<open>typedef\<close>, \<^verbatim>\<open>struct\<close>,
  \<^verbatim>\<open>TSLanguage\<close>, \<^verbatim>\<open>extern\<close>, \<^verbatim>\<open>const\<close>, \<^verbatim>\<open>tree_sitter_rigz\<close>, \<^verbatim>\<open>void\<close>), since
  such a macro would rewrite the declarations before the compiler sees them. In every
  such preprocessor state (any other macros defined, C or C++, inside any conditional),
  inclusion succeeds, and what it declares contains
  \<^item> at most one function, and exactly one when the header's body is read: the
    accessor \<^verbatim>\<open>tree_sitter_rigz\<close>, which takes no arguments and returns a pointer
    to \<^verbatim>\<open>const TSLanguage\<close>;
  \<^item> no object;
  \<^item> no definition of \<^verbatim>\<open>struct TSLanguage\<close>, which stays an incomplete type whose
    members no caller can name;
  \<^item> no declaration through which a \<^verbatim>\<open>TSLanguage\<close> can be modified: every handle a
    caller gets is read-only at the type level.
\<close>

theorem rigz_h_read_only_surface:
  assumes "macros s \<inter> {''typedef'', ''struct'', ''TSLanguage'', ''extern'', ''const'',
                        ''tree_sitter_rigz'', ''void''} = {}"
  shows "\<exists>out s'. include_file rigz_h s = Inr (out, s') \<and>
     prototypes (declarations out) =
       (if active s \<and> ''TREE_SITTER_RIGZ_H_'' \<notin> macros s
        then [Prototype (Pointer (Const (Named ''TSLanguage''))) ''tree_sitter_rigz'' []]
        else []) \<and>
     objects (declarations out) = [] \<and>
     \<not> list_ex (completes ''TSLanguage'') (declarations out) \<and>
     \<not> list_ex (can_mutate ''TSLanguage'') (declarations out)"
  unfolding include_rigz_h [OF assms]
  by (simp add: declarations_body TSLanguage_typedef_def tree_sitter_rigz_def)

text \<open>The theorem at the start of a C translation unit, where the body is read.\<close>

theorem rigz_h_read_only_surface_witness:
  "macros (start {}) \<inter> {''typedef'', ''struct'', ''TSLanguage'', ''extern'', ''const'',
                          ''tree_sitter_rigz'', ''void''} = {} \<and>
   (\<exists>out s'. include_file rigz_h (start {}) = Inr (out, s') \<and>
     prototypes (declarations out) =
       [Prototype (Pointer (Const (Named ''TSLanguage''))) ''tree_sitter_rigz'' []] \<and>
     objects (declarations out) = [] \<and>
     \<not> list_ex (completes ''TSLanguage'') (declarations out) \<and>
     \<not> list_ex (can_mutate ''TSLanguage'') (declarations out))"
proof -
  have h: "macros (start {}) \<inter> {''typedef'', ''struct'', ''TSLanguage'', ''extern'',
             ''const'', ''tree_sitter_rigz'', ''void''} = {}"
    by (simp add: start_def)
  show ?thesis
    using h rigz_h_read_only_surface [OF h]
    by (simp add: start_def active_def)
qed

subsection \<open>Inclusion is idempotent\<close>

text \<open>
  Claim C10. Inclusion of the binding header is idempotent. The header is read as it is
  written: the including translation unit defines no macro named like an identifier of
  the header's text (\<^verbatim>\<open>typedef\<close>, \<^verbatim>\<open>struct\<close>, \<^verbatim>\<open>TSLanguage\<close>, \<^verbatim>\<open>extern\<close>,
  \<^verbatim>\<open>const\<close>, \<^verbatim>\<open>tree_sitter_rigz\<close>, \<^verbatim>\<open>void\<close>). From every such preprocessor state,
  including \<^verbatim>\<open>rigz.h\<close> any number of times in a row, at least once, gives the same
  preprocessed text and the same preprocessor state as including it once. The
  declarations that result are the \<^verbatim>\<open>TSLanguage\<close> typedef and the
  \<^verbatim>\<open>tree_sitter_rigz\<close> prototype, each once, when the first inclusion reads the
  header's body (it is not in a skipped group and the guard \<^verbatim>\<open>TREE_SITTER_RIGZ_H_\<close>
  is not yet defined), and none otherwise; no name is declared twice.
\<close>

theorem rigz_h_inclusion_idempotent:
  assumes "macros s \<inter> {''typedef'', ''struct'', ''TSLanguage'', ''extern'', ''const'',
                        ''tree_sitter_rigz'', ''void''} = {}"
  shows "include_times (Suc n) rigz_h s = include_file rigz_h s \<and>
   (\<exists>out s'. include_times (Suc n) rigz_h s = Inr (out, s') \<and>
      declarations out =
        (if active s \<and> ''TREE_SITTER_RIGZ_H_'' \<notin> macros s
         then [Typedef (Struct ''TSLanguage'') ''TSLanguage'',
               Prototype (Pointer (Const (Named ''TSLanguage''))) ''tree_sitter_rigz'' []]
         else []) \<and>
      distinct (map declared_name (declarations out)))"
proof -
  have once: "include_times (Suc n) rigz_h s = include_file rigz_h s"
    by (rule include_times_rigz_h [OF assms])
  show ?thesis
    unfolding once include_rigz_h [OF assms]
    by (simp add: declarations_body TSLanguage_typedef_def tree_sitter_rigz_def)
qed

text \<open>The theorem at three inclusions in a C++ translation unit.\<close>

theorem rigz_h_inclusion_idempotent_witness:
  "macros (start {''__cplusplus''}) \<inter>
     {''typedef'', ''struct'', ''TSLanguage'', ''extern'', ''const'', ''tree_sitter_rigz'',
      ''void''} = {} \<and>
   include_times 3 rigz_h (start {''__cplusplus''}) =
     include_file rigz_h (start {''__cplusplus''}) \<and>
   include_times 3 rigz_h (start {''__cplusplus''}) =
     Inr ([Declaration (Typedef (Struct ''TSLanguage'') ''TSLanguage''),
           Extern_C_open,
           Declaration
             (Prototype (Pointer (Const (Named ''TSLanguage''))) ''tree_sitter_rigz'' []),
           Extern_C_close],
          \<lparr>macros = {''TREE_SITTER_RIGZ_H_'', ''__cplusplus''}, conds = []\<rparr>)"
proof -
  have h: "macros (start {''__cplusplus''}) \<inter>
     {''typedef'', ''struct'', ''TSLanguage'', ''extern'', ''const'', ''tree_sitter_rigz'',
      ''void''} = {}"
    by (simp add: start_def)
  have "include_times (Suc 2) rigz_h (start {''__cplusplus''}) =
          include_file rigz_h (start {''__cplusplus''})"
    using rigz_h_inclusion_idempotent [OF h, of 2] by blast
  moreover have "include_file rigz_h (start {''__cplusplus''}) =
     Inr ([Declaration (Typedef (Struct ''TSLanguage'') ''TSLanguage''),
           Extern_C_open,
           Declaration
             (Prototype (Pointer (Const (Named ''TSLanguage''))) ''tree_sitter_rigz'' []),
           Extern_C_close],
          \<lparr>macros = {''TREE_SITTER_RIGZ_H_'', ''__cplusplus''}, conds = []\<rparr>)"
    by (simp add: include_file_def rigz_h_def start_def active_def needs_replacement_def)
  ultimately show ?thesis
    using h by (simp add: numeral_3_eq_3)
qed

end
